theory Spec2Isabelle
  imports Complex_Main "HOL-Library.Sublist" "HOL-Library.Multiset"
begin

section \<open>Strings\<close>

text \<open>
  A string is the list of its code units. The model covers ASCII text: \<open>toLowerCase\<close>
  maps the letters \<open>A\<close> to \<open>Z\<close> to \<open>a\<close> to \<open>z\<close> and leaves every other character alone,
  and white space is the six ASCII white-space characters.
\<close>

definition toLowerChar :: "char \<Rightarrow> char" where
  "toLowerChar c =
     (case map_of (zip ''ABCDEFGHIJKLMNOPQRSTUVWXYZ'' ''abcdefghijklmnopqrstuvwxyz'') c of
        None \<Rightarrow> c
      | Some l \<Rightarrow> l)"


definition toLowerCase :: "string \<Rightarrow> string" where
  "toLowerCase s = map toLowerChar s"

text \<open>\<open>s.includes(k)\<close>: \<open>k\<close> occurs in \<open>s\<close> as a contiguous run.\<close>

fun str_includes :: "string \<Rightarrow> string \<Rightarrow> bool" where
  "str_includes [] k = (k = [])"
| "str_includes (c # cs) k = (prefix k (c # cs) \<or> str_includes cs k)"

definition isWhiteSpace :: "char \<Rightarrow> bool" where
  "isWhiteSpace c = (c \<in> set [CHR '' '', CHR 0x09, CHR 0x0A, CHR 0x0B, CHR 0x0C, CHR 0x0D])"

definition trim :: "string \<Rightarrow> string" where
  "trim s = rev (dropWhile isWhiteSpace (rev (dropWhile isWhiteSpace s)))"

text \<open>\<open>xs.join(sep)\<close> on an array of strings.\<close>

fun join :: "string \<Rightarrow> string list \<Rightarrow> string" where
  "join sep [] = []"
| "join sep [x] = x"
| "join sep (x # y # ys) = x @ sep @ join sep (y # ys)"

text \<open>
  \<open>Array.from(new Set(xs))\<close>: a set keeps its elements in insertion order and ignores an
  element it already holds.
\<close>

definition setAdd :: "'a list \<Rightarrow> 'a \<Rightarrow> 'a list" where
  "setAdd acc x = (if x \<in> set acc then acc else acc @ [x])"

definition arrayFromSet :: "'a list \<Rightarrow> 'a list" where
  "arrayFromSet xs = foldl setAdd [] xs"

section \<open>The platform\<close>

text \<open>
  The functions of the JavaScript platform that the code calls and whose results depend on
  IEEE doubles or on the engine are parameters of the model. \<open>'f\<close> is the type of the
  doubles that inexact arithmetic produces.
  \<^item> \<open>dateGetTime s\<close> is \<open>new Date(s).getTime()\<close>: the time in milliseconds, or \<open>None\<close> for
    \<open>NaN\<close> (an invalid date);
  \<^item> \<open>numberToString\<close> is \<open>String\<close> on a number, \<open>parseInt\<close> and \<open>parseFloat\<close> are the
    global functions on a string, \<open>None\<close> standing for \<open>NaN\<close> (the integer that \<open>parseInt\<close>
    returns is taken to be finite);
  \<^item> \<open>num r\<close> is the double of a numeric literal or of an integer count or time,
    \<open>nan\<close> is \<open>NaN\<close>, and \<open>fsub\<close>, \<open>fdiv\<close>, \<open>fmul\<close>, \<open>fabs\<close>, \<open>fround\<close>, \<open>fless\<close> and \<open>toFixed\<close> are
    \<open>-\<close>, \<open>/\<close>, \<open>*\<close>, \<open>Math.abs\<close>, \<open>Math.round\<close>, \<open><\<close> and \<open>Number.prototype.toFixed\<close>.
\<close>

record 'f platform =
  dateGetTime :: "string \<Rightarrow> int option"
  numberToString :: "rat \<Rightarrow> string"
  parseInt :: "string \<Rightarrow> int option"
  parseFloat :: "string \<Rightarrow> 'f"
  num :: "rat \<Rightarrow> 'f"
  nan :: 'f
  fsub :: "'f \<Rightarrow> 'f \<Rightarrow> 'f"
  fdiv :: "'f \<Rightarrow> 'f \<Rightarrow> 'f"
  fmul :: "'f \<Rightarrow> 'f \<Rightarrow> 'f"
  fabs :: "'f \<Rightarrow> 'f"
  fround :: "'f \<Rightarrow> 'f"
  fless :: "'f \<Rightarrow> 'f \<Rightarrow> bool"
  toFixed :: "'f \<Rightarrow> nat \<Rightarrow> string"

section \<open>Notes\<close>

text \<open>
  Modelled from the spec: the declaration of the type \<open>Note\<close>, which the analyzer imports from
  \<open>@shared/schema\<close>, is not among the sources. The specification calls the notes
  heterogeneous, loosely typed records, so the model types each field the way the code
  reads it. A loosely typed JSON value is a string, a number or an array of strings; a field
  that is \<open>undefined\<close> (or whose parent object is) is \<open>None\<close>, so a chain
  \<open>noteData?.history?.smoking_status\<close> is one optional field.
\<close>

datatype jsval = JStr string | JNum rat | JArr "string list"

definition truthy :: "jsval option \<Rightarrow> bool" where
  "truthy v =
     (case v of
        None \<Rightarrow> False
      | Some (JStr s) \<Rightarrow> s \<noteq> []
      | Some (JNum r) \<Rightarrow> r \<noteq> 0
      | Some (JArr xs) \<Rightarrow> True)"


text \<open>\<open>String(v)\<close>.\<close>

definition jsString :: "'f platform \<Rightarrow> jsval \<Rightarrow> string" where
  "jsString P v =
     (case v of JStr s \<Rightarrow> s | JNum r \<Rightarrow> numberToString P r | JArr xs \<Rightarrow> join '','' xs)"

text \<open>\<open>typeof v === 'string' ? v.toLowerCase() : ''\<close>.\<close>

definition lowerIfString :: "jsval option \<Rightarrow> string" where
  "lowerIfString v = (case v of Some (JStr s) \<Rightarrow> toLowerCase s | _ \<Rightarrow> [])"

record abstraction =
  demographics_age :: "rat option"
  history_medical_history :: "jsval option"
  history_smoking_status :: "jsval option"
  assessment_ecog :: "rat option"
  assessment_kps :: "rat option"
  assessment_pain_score :: "rat option"
  assessment_ipss :: "rat option"
  assessment_aua :: "rat option"
  assessment_shim :: "rat option"
  assessment_iief :: "rat option"
  treatment_technique :: "string option"
  treatment_modality :: "string option"
  treatment_total_dose :: "jsval option"
  treatment_fractions :: "jsval option"
  toxicity_grade :: "jsval option"
  side_effects :: "jsval option"
  disease_status :: "jsval option"
  review_of_systems :: "(string \<times> jsval) list option"

record Note =
  patient_id :: string
  noteType :: "string option"
  description :: "string option"
  creation :: "string option"
  noteAbstraction :: "abstraction option"

text \<open>\<open>note.noteAbstraction?.f\<close>.\<close>

definition noteField :: "(abstraction \<Rightarrow> 'a option) \<Rightarrow> Note \<Rightarrow> 'a option" where
  "noteField f note = (case noteAbstraction note of None \<Rightarrow> None | Some noteData \<Rightarrow> f noteData)"

text \<open>\<open>note.creation || ''\<close> and \<open>new Date(note.creation).getTime()\<close>.\<close>

definition noteDate :: "Note \<Rightarrow> string" where
  "noteDate note = (case creation note of None \<Rightarrow> [] | Some s \<Rightarrow> s)"

definition creationTime :: "'f platform \<Rightarrow> Note \<Rightarrow> int option" where
  "creationTime P note = (case creation note of None \<Rightarrow> None | Some s \<Rightarrow> dateGetTime P s)"

text \<open>\<open>note.description?.toLowerCase() || ''\<close>.\<close>

definition descriptionLower :: "Note \<Rightarrow> string" where
  "descriptionLower note = (case description note of None \<Rightarrow> [] | Some d \<Rightarrow> toLowerCase d)"

text \<open>\<open>this.notes.filter(note => note.patient_id === patientId && note.noteType === t)\<close>.\<close>

definition notesOfType :: "Note list \<Rightarrow> string \<Rightarrow> string \<Rightarrow> Note list" where
  "notesOfType notes patientId t =
     filter (\<lambda>note. patient_id note = patientId \<and> noteType note = Some t) notes"

section \<open>Sorting\<close>

text \<open>
  \<open>Array.prototype.sort\<close> with a comparison function is stable. The comparison functions
  of this code subtract two times; a result that is \<open>NaN\<close> counts as 0. For a consistent
  comparison function every stable sort returns the same array, and the insertion sort
  below is that array; when valid and invalid dates are mixed, ECMAScript leaves the order
  to the engine and the model is one admissible order.
\<close>

definition positive :: "int option \<Rightarrow> bool" where
  "positive v = (case v of None \<Rightarrow> False | Some d \<Rightarrow> 0 < d)"

fun insertSorted :: "('a \<Rightarrow> 'a \<Rightarrow> int option) \<Rightarrow> 'a \<Rightarrow> 'a list \<Rightarrow> 'a list" where
  "insertSorted cmp x [] = [x]"
| "insertSorted cmp x (y # ys) =
     (if positive (cmp x y) then y # insertSorted cmp x ys else x # y # ys)"

definition jsSort :: "('a \<Rightarrow> 'a \<Rightarrow> int option) \<Rightarrow> 'a list \<Rightarrow> 'a list" where
  "jsSort cmp xs = foldr (insertSorted cmp) xs []"

text \<open>\<open>(a, b) => new Date(b.creation).getTime() - new Date(a.creation).getTime()\<close>.\<close>

definition newestFirst :: "'f platform \<Rightarrow> Note \<Rightarrow> Note \<Rightarrow> int option" where
  "newestFirst P a b =
     (case (creationTime P b, creationTime P a) of
        (Some tb, Some ta) \<Rightarrow> Some (tb - ta)
      | _ \<Rightarrow> None)"

text \<open>\<open>(a, b) => new Date(a.creation).getTime() - new Date(b.creation).getTime()\<close>.\<close>

definition oldestFirst :: "'f platform \<Rightarrow> Note \<Rightarrow> Note \<Rightarrow> int option" where
  "oldestFirst P a b =
     (case (creationTime P a, creationTime P b) of
        (Some ta, Some tb) \<Rightarrow> Some (ta - tb)
      | _ \<Rightarrow> None)"




section \<open>The comorbidity profile\<close>

record score =
  source :: string
  "value" :: rat
  date :: string

record ComorbidityProfile =
  cp_patientId :: string
  age :: "rat option"
  hypertension :: bool
  copd :: bool
  diabetes :: bool
  cad :: bool
  smokingHistory :: bool
  allMedicalConditions :: "string list"
  ecogScores :: "score list"
  kpsScores :: "score list"
  painScores :: "score list"
  ipssScores :: "score list"
  auaScores :: "score list"
  shimScores :: "score list"
  iiefScores :: "score list"

text \<open>\<open>if (v !== undefined) scores.push({ source, value: v, date })\<close>.\<close>

definition pushScore :: "string \<Rightarrow> rat option \<Rightarrow> string \<Rightarrow> score list \<Rightarrow> score list" where
  "pushScore src v d scores =
     (case v of None \<Rightarrow> scores | Some x \<Rightarrow> scores @ [\<lparr>source = src, value = x, date = d\<rparr>])"

text \<open>
  \<open>medicalHistory = noteData?.history?.medical_history || []\<close>, then
  \<open>Array.isArray(medicalHistory) ? medicalHistory : [String(medicalHistory)]\<close>.
\<close>

definition medicalHistoryArray :: "'f platform \<Rightarrow> Note \<Rightarrow> string list" where
  "medicalHistoryArray P note =
     (case noteField history_medical_history note of
        None \<Rightarrow> []
      | Some (JArr xs) \<Rightarrow> xs
      | Some v \<Rightarrow> (if truthy (Some v) then [jsString P v] else []))"

definition medicalHistoryStr :: "'f platform \<Rightarrow> Note \<Rightarrow> string" where
  "medicalHistoryStr P note = toLowerCase (join '' '' (medicalHistoryArray P note))"

text \<open>
  \<open>typeof noteData?.history?.smoking_status === 'string' ? ... : ''\<close>, lower-cased as each
  test of the code does.
\<close>

definition smokingStatusLower :: "Note \<Rightarrow> string" where
  "smokingStatusLower note = lowerIfString (noteField history_smoking_status note)"

text \<open>The four urologic scores, which every kind of note contributes.\<close>

definition pushUrologicScores :: "string \<Rightarrow> Note \<Rightarrow> ComorbidityProfile \<Rightarrow> ComorbidityProfile" where
  "pushUrologicScores src note acc =
     acc\<lparr>ipssScores := pushScore src (noteField assessment_ipss note) (noteDate note) (ipssScores acc),
         auaScores := pushScore src (noteField assessment_aua note) (noteDate note) (auaScores acc),
         shimScores := pushScore src (noteField assessment_shim note) (noteDate note) (shimScores acc),
         iiefScores := pushScore src (noteField assessment_iief note) (noteDate note) (iiefScores acc)\<rparr>"

text \<open>All seven assessment scores: the body of the loops over weekly and follow-up notes.\<close>

definition pushAssessmentScores :: "string \<Rightarrow> Note \<Rightarrow> ComorbidityProfile \<Rightarrow> ComorbidityProfile" where
  "pushAssessmentScores src note acc =
     pushUrologicScores src note
       (acc\<lparr>ecogScores := pushScore src (noteField assessment_ecog note) (noteDate note) (ecogScores acc),
            kpsScores := pushScore src (noteField assessment_kps note) (noteDate note) (kpsScores acc),
            painScores :=
              pushScore src (noteField assessment_pain_score note) (noteDate note) (painScores acc)\<rparr>)"

text \<open>The body of the loop over consult notes.\<close>

definition consultStep :: "'f platform \<Rightarrow> Note \<Rightarrow> ComorbidityProfile \<Rightarrow> ComorbidityProfile" where
  "consultStep P note acc =
     pushAssessmentScores ''consult'' note
       (acc\<lparr>age :=
              (case noteField demographics_age note of
                 None \<Rightarrow> age acc
               | Some a \<Rightarrow> if a \<noteq> 0 then Some a else age acc),
            allMedicalConditions :=
              allMedicalConditions acc @
                filter (\<lambda>condition. condition \<noteq> [] \<and> trim condition \<noteq> []) (medicalHistoryArray P note),
            hypertension :=
              (hypertension acc \<or> str_includes (medicalHistoryStr P note) ''hypertension'' \<or>
               str_includes (medicalHistoryStr P note) ''htn'' \<or>
               str_includes (medicalHistoryStr P note) ''high blood pressure''),
            copd :=
              (copd acc \<or> str_includes (medicalHistoryStr P note) ''copd'' \<or>
               str_includes (medicalHistoryStr P note) ''chronic obstructive'' \<or>
               str_includes (medicalHistoryStr P note) ''emphysema''),
            diabetes :=
              (diabetes acc \<or> str_includes (medicalHistoryStr P note) ''diabetes'' \<or>
               str_includes (medicalHistoryStr P note) ''dm'' \<or>
               str_includes (medicalHistoryStr P note) ''diabetic''),
            cad :=
              (cad acc \<or> str_includes (medicalHistoryStr P note) ''coronary'' \<or>
               str_includes (medicalHistoryStr P note) ''cad'' \<or>
               str_includes (medicalHistoryStr P note) ''heart disease''),
            smokingHistory :=
              (smokingHistory acc \<or> str_includes (smokingStatusLower note) ''former'' \<or>
               str_includes (smokingStatusLower note) ''current'' \<or>
               str_includes (smokingStatusLower note) ''smoking'')\<rparr>)"

definition emptyProfile :: "string \<Rightarrow> ComorbidityProfile" where
  "emptyProfile patientId =
     \<lparr>cp_patientId = patientId, age = None, hypertension = False, copd = False, diabetes = False,
      cad = False, smokingHistory = False, allMedicalConditions = [], ecogScores = [],
      kpsScores = [], painScores = [], ipssScores = [], auaScores = [], shimScores = [],
      iiefScores = []\<rparr>"

definition extractComorbidityProfile :: "'f platform \<Rightarrow> Note list \<Rightarrow> string \<Rightarrow> ComorbidityProfile" where
  "extractComorbidityProfile P notes patientId =
     (let consultNotes = notesOfType notes patientId ''CONSULT'';
          weeklyNotes = notesOfType notes patientId ''WEEKLY TREATMENT'';
          followupNotes = notesOfType notes patientId ''FOLLOWUP'';
          treatmentSummaryNotes = notesOfType notes patientId ''TREATMENT SUMMARY'';
          acc1 = fold (consultStep P) consultNotes (emptyProfile patientId);
          acc2 = fold (pushAssessmentScores ''weekly'') weeklyNotes acc1;
          acc3 = fold (pushAssessmentScores ''followup'') followupNotes acc2;
          acc4 = fold (pushUrologicScores ''treatment-summary'') treatmentSummaryNotes acc3
      in acc4\<lparr>allMedicalConditions := arrayFromSet (allMedicalConditions acc4)\<rparr>)"

section \<open>The treatment modality\<close>

text \<open>The returned object never sets the optional \<open>fractionation\<close>, so the model leaves it out.\<close>

record 'f TreatmentModality =
  tm_patientId :: string
  treatmentType :: string
  totalDose :: "'f option"
  fractions :: "int option option"
  technique :: "string option"

text \<open>The chain of tests on the lower-cased modality; \<open>None\<close> when no keyword occurs.\<close>

definition modalityKeyword :: "string \<Rightarrow> string option" where
  "modalityKeyword m =
     (if str_includes m ''sbrt'' \<or> str_includes m ''stereotactic'' then Some ''SBRT''
      else if str_includes m ''imrt'' \<or> str_includes m ''intensity'' then Some ''IMRT''
      else if str_includes m ''3d'' \<or> str_includes m ''conformal'' then Some ''3D-CRT''
      else if str_includes m ''proton'' then Some ''Proton''
      else if str_includes m ''hdr'' \<or> str_includes m ''brachytherapy'' then Some ''HDR''
      else None)"

text \<open>The body of the loop over simulation and treatment-summary notes.\<close>

definition modalityStep :: "'f platform \<Rightarrow> Note \<Rightarrow> 'f TreatmentModality \<Rightarrow> 'f TreatmentModality" where
  "modalityStep P note acc =
     (let acc1 = (case noteField treatment_technique note of
                    None \<Rightarrow> acc
                  | Some t \<Rightarrow> if t \<noteq> [] then acc\<lparr>technique := Some t, treatmentType := t\<rparr> else acc);
          acc2 = (case noteField treatment_modality note of
                    None \<Rightarrow> acc1
                  | Some m \<Rightarrow>
                      if m \<noteq> [] then
                        (case modalityKeyword (toLowerCase m) of
                           Some k \<Rightarrow> acc1\<lparr>treatmentType := k\<rparr>
                         | None \<Rightarrow> acc1\<lparr>treatmentType := m\<rparr>)
                      else acc1);
          acc3 = (if treatmentType acc2 = ''Unknown'' then
                    (case modalityKeyword (descriptionLower note) of
                       Some k \<Rightarrow> acc2\<lparr>treatmentType := k\<rparr>
                     | None \<Rightarrow> acc2)
                  else acc2);
          acc4 = (case noteField treatment_total_dose note of
                    None \<Rightarrow> acc3
                  | Some v \<Rightarrow>
                      if truthy (Some v) then acc3\<lparr>totalDose := Some (parseFloat P (jsString P v))\<rparr>
                      else acc3)
      in (case noteField treatment_fractions note of
            None \<Rightarrow> acc4
          | Some v \<Rightarrow>
              if truthy (Some v) then acc4\<lparr>fractions := Some (parseInt P (jsString P v))\<rparr>
              else acc4))"

definition extractTreatmentModality :: "'f platform \<Rightarrow> Note list \<Rightarrow> string \<Rightarrow> 'f TreatmentModality" where
  "extractTreatmentModality P notes patientId =
     (let treatmentNotes =
            filter (\<lambda>note. patient_id note = patientId \<and>
                      (noteType note = Some ''SIMULATION'' \<or> noteType note = Some ''TREATMENT SUMMARY''))
              notes
      in fold (modalityStep P) treatmentNotes
           \<lparr>tm_patientId = patientId, treatmentType = ''Unknown'', totalDose = None,
            fractions = None, technique = None\<rparr>)"

section \<open>The treatment tolerance\<close>

record report =
  report_source :: string
  severity :: string
  report_date :: string

record TreatmentTolerance =
  tt_patientId :: string
  interruptions :: nat
  doseReductions :: bool
  toxicityGrade :: "int option"
  completedTreatment :: bool
  fatigueReports :: "report list"
  dermatitisReports :: "report list"

text \<open>The three variables that the loop over daily notes updates.\<close>

record daily_state =
  interruptions_so_far :: nat
  doseReductions_so_far :: bool
  toxicityGrade_so_far :: int

definition mentionsInterruption :: "Note \<Rightarrow> bool" where
  "mentionsInterruption note =
     (str_includes (descriptionLower note) ''interrupt'' \<or> str_includes (descriptionLower note) ''delay'' \<or>
      str_includes (descriptionLower note) ''break'' \<or> str_includes (descriptionLower note) ''hold'')"

definition mentionsReduction :: "Note \<Rightarrow> bool" where
  "mentionsReduction note =
     (str_includes (descriptionLower note) ''reduce'' \<or> str_includes (descriptionLower note) ''decreased'' \<or>
      str_includes (descriptionLower note) ''modified'')"

text \<open>
  \<open>parseInt(String(noteData.toxicity.grade))\<close> of a note whose grade is truthy and parses
  to a number; \<open>None\<close> for a note that leaves \<open>toxicityGrade\<close> alone.
\<close>

definition parsedGrade :: "'f platform \<Rightarrow> Note \<Rightarrow> int option" where
  "parsedGrade P note =
     (case noteField toxicity_grade note of
        None \<Rightarrow> None
      | Some g \<Rightarrow> if truthy (Some g) then parseInt P (jsString P g) else None)"

definition dailyStep :: "'f platform \<Rightarrow> Note \<Rightarrow> daily_state \<Rightarrow> daily_state" where
  "dailyStep P note st =
     st\<lparr>interruptions_so_far :=
          (if mentionsInterruption note then interruptions_so_far st + 1 else interruptions_so_far st),
        doseReductions_so_far := (if mentionsReduction note then True else doseReductions_so_far st),
        toxicityGrade_so_far :=
          (case parsedGrade P note of
             None \<Rightarrow> toxicityGrade_so_far st
           | Some grade \<Rightarrow> max (toxicityGrade_so_far st) grade)\<rparr>"

definition sideEffectsLower :: "Note \<Rightarrow> string" where
  "sideEffectsLower note = lowerIfString (noteField side_effects note)"

definition severityOf :: "string \<Rightarrow> string" where
  "severityOf sideEffects =
     (if str_includes sideEffects ''severe'' \<or> str_includes sideEffects ''grade 3'' then ''severe''
      else if str_includes sideEffects ''moderate'' \<or> str_includes sideEffects ''grade 2'' then ''moderate''
      else ''mild'')"

text \<open>The fatigue and dermatitis reports that the side effects of one note push.\<close>

definition sideEffectFatigue :: "string \<Rightarrow> Note \<Rightarrow> report list" where
  "sideEffectFatigue src note =
     (if str_includes (sideEffectsLower note) ''fatigue'' \<or> str_includes (sideEffectsLower note) ''tired'' \<or>
         str_includes (sideEffectsLower note) ''exhausted''
      then [\<lparr>report_source = src, severity = severityOf (sideEffectsLower note),
             report_date = noteDate note\<rparr>]
      else [])"

definition sideEffectDermatitis :: "string \<Rightarrow> Note \<Rightarrow> report list" where
  "sideEffectDermatitis src note =
     (if str_includes (sideEffectsLower note) ''dermatitis'' \<or> str_includes (sideEffectsLower note) ''skin'' \<or>
         str_includes (sideEffectsLower note) ''rash''
      then [\<lparr>report_source = src, severity = severityOf (sideEffectsLower note),
             report_date = noteDate note\<rparr>]
      else [])"

text \<open>\<open>Object.entries(noteData?.review_of_systems || {})\<close>.\<close>

definition reviewEntries :: "Note \<Rightarrow> (string \<times> jsval) list" where
  "reviewEntries note = (case noteField review_of_systems note of None \<Rightarrow> [] | Some kvs \<Rightarrow> kvs)"

definition reviewFatigue :: "Note \<Rightarrow> string \<times> jsval \<Rightarrow> report list" where
  "reviewFatigue note entry =
     (case snd entry of
        JStr v \<Rightarrow>
          (if toLowerCase (fst entry) = ''energy'' \<or> str_includes (toLowerCase v) ''fatigue'' \<or>
              str_includes (toLowerCase v) ''tired''
           then [\<lparr>report_source = ''weekly'', severity = ''mild'', report_date = noteDate note\<rparr>]
           else [])
      | _ \<Rightarrow> [])"

definition reviewDermatitis :: "Note \<Rightarrow> string \<times> jsval \<Rightarrow> report list" where
  "reviewDermatitis note entry =
     (case snd entry of
        JStr v \<Rightarrow>
          (if toLowerCase (fst entry) = ''skin'' \<or> str_includes (toLowerCase v) ''rash'' \<or>
              str_includes (toLowerCase v) ''dermatitis''
           then [\<lparr>report_source = ''weekly'', severity = ''mild'', report_date = noteDate note\<rparr>]
           else [])
      | _ \<Rightarrow> [])"

definition weeklyFatigue :: "Note \<Rightarrow> report list" where
  "weeklyFatigue note =
     sideEffectFatigue ''weekly'' note @ concat (map (reviewFatigue note) (reviewEntries note))"

definition weeklyDermatitis :: "Note \<Rightarrow> report list" where
  "weeklyDermatitis note =
     sideEffectDermatitis ''weekly'' note @ concat (map (reviewDermatitis note) (reviewEntries note))"

definition extractTreatmentTolerance :: "'f platform \<Rightarrow> Note list \<Rightarrow> string \<Rightarrow> TreatmentTolerance" where
  "extractTreatmentTolerance P notes patientId =
     (let dailyNotes = notesOfType notes patientId ''DAILY TREATMENT'';
          weeklyNotes = notesOfType notes patientId ''WEEKLY TREATMENT'';
          followupNotes = notesOfType notes patientId ''FOLLOWUP'';
          st = fold (dailyStep P) dailyNotes
                 \<lparr>interruptions_so_far = 0, doseReductions_so_far = False, toxicityGrade_so_far = 0\<rparr>
      in \<lparr>tt_patientId = patientId,
          interruptions = interruptions_so_far st,
          doseReductions = doseReductions_so_far st,
          toxicityGrade = (if 0 < toxicityGrade_so_far st then Some (toxicityGrade_so_far st) else None),
          completedTreatment = (interruptions_so_far st < 3),
          fatigueReports =
            concat (map weeklyFatigue weeklyNotes) @
            concat (map (sideEffectFatigue ''followup'') followupNotes),
          dermatitisReports =
            concat (map weeklyDermatitis weeklyNotes) @
            concat (map (sideEffectDermatitis ''followup'') followupNotes)\<rparr>)"

section \<open>The outcome\<close>

record 'f OutcomeData =
  od_patientId :: string
  localControl :: bool
  recurrence :: bool
  survivalMonths :: "'f option"
  lateToxicity :: bool
  grade3Toxicity :: bool

definition diseaseStatusLower :: "Note \<Rightarrow> string" where
  "diseaseStatusLower note = lowerIfString (noteField disease_status note)"

text \<open>The double of \<open>new Date(note.creation).getTime()\<close>.\<close>

definition timeNumber :: "'f platform \<Rightarrow> Note \<Rightarrow> 'f" where
  "timeNumber P note =
     (case creationTime P note of None \<Rightarrow> nan P | Some ms \<Rightarrow> num P (of_int ms))"

text \<open>
  \<open>Math.round((latest - first) / (1000 * 60 * 60 * 24 * 30))\<close>; the product of the literals
  is the integer 2592000000.
\<close>

definition monthsBetween :: "'f platform \<Rightarrow> Note \<Rightarrow> Note \<Rightarrow> 'f" where
  "monthsBetween P latestFollowup firstTreatment =
     fround P (fdiv P (fsub P (timeNumber P latestFollowup) (timeNumber P firstTreatment))
                 (num P 2592000000))"

text \<open>
  \<open>hd\<close> reads element 0 of a sorted array; both uses are behind the test that the array
  that is sorted is not empty.
\<close>

definition extractOutcomeData :: "'f platform \<Rightarrow> Note list \<Rightarrow> string \<Rightarrow> 'f OutcomeData" where
  "extractOutcomeData P notes patientId =
     (let followupNotes = notesOfType notes patientId ''FOLLOWUP''
      in if length followupNotes = 0 then
           \<lparr>od_patientId = patientId, localControl = False, recurrence = False,
            survivalMonths = None, lateToxicity = False, grade3Toxicity = False\<rparr>
         else
           (let latestFollowup = hd (jsSort (newestFirst P) followupNotes);
                diseaseStatus = diseaseStatusLower latestFollowup;
                sideEffects = sideEffectsLower latestFollowup;
                treatmentNotes = notesOfType notes patientId ''CONSULT'';
                survival =
                  (if 0 < length treatmentNotes then
                     Some (monthsBetween P latestFollowup (hd (jsSort (oldestFirst P) treatmentNotes)))
                   else None)
            in \<lparr>od_patientId = patientId,
                localControl = (str_includes diseaseStatus ''ned'' \<or> str_includes diseaseStatus ''no evidence''),
                recurrence =
                  (str_includes diseaseStatus ''recurrence'' \<or> str_includes diseaseStatus ''progression''),
                survivalMonths = survival,
                lateToxicity = (str_includes sideEffects ''chronic'' \<or> str_includes sideEffects ''persistent''),
                grade3Toxicity = (str_includes sideEffects ''severe'' \<or> str_includes sideEffects ''grade 3'')\<rparr>))"

section \<open>Patient analytics, cohorts and insights\<close>

record 'f patient_analytics =
  patientId :: string
  comorbidities :: ComorbidityProfile
  treatment :: "'f TreatmentModality"
  tolerance :: TreatmentTolerance
  outcomes :: "'f OutcomeData"

text \<open>
  The distinct elements of a list in the order of their first occurrence: the words of the
  specification of the grouping.
\<close>

definition firstOccurrences :: "'a list \<Rightarrow> 'a list" where
  "firstOccurrences xs =
     map (\<lambda>i. xs ! i) (filter (\<lambda>i. xs ! i \<notin> set (take i xs)) [0 ..< length xs])"

definition generatePatientAnalytics :: "'f platform \<Rightarrow> Note list \<Rightarrow> 'f patient_analytics list" where
  "generatePatientAnalytics P notes =
     (let patientIds = arrayFromSet (map patient_id notes)
      in map (\<lambda>patientId.
                \<lparr>patientId = patientId,
                 comorbidities = extractComorbidityProfile P notes patientId,
                 treatment = extractTreatmentModality P notes patientId,
                 tolerance = extractTreatmentTolerance P notes patientId,
                 outcomes = extractOutcomeData P notes patientId\<rparr>)
           patientIds)"


























section \<open>Grouping notes into tabs\<close>




section \<open>Searching the text of a note\<close>












section \<open>Quality-measure counts\<close>

text \<open>
  The home page counts the measures of the first quality-measures document:
  \<open>Object.values(qualityMeasuresData[0]?.data || {})\<close>, each filtered on
  \<open>measure.final_outcome?.toLowerCase()\<close>. Without data all three counts are 0.
\<close>

record quality_measure =
  final_outcome :: "string option"

record qm_document =
  data :: "(string \<times> quality_measure) list option"

record qm_counts =
  passed :: nat
  failed :: nat
  excluded :: nat

definition firstDocumentValues :: "qm_document list \<Rightarrow> quality_measure list" where
  "firstDocumentValues docs =
     (case docs of
        [] \<Rightarrow> []
      | d # _ \<Rightarrow> (case data d of None \<Rightarrow> [] | Some kvs \<Rightarrow> map snd kvs))"

definition outcomeLower :: "quality_measure \<Rightarrow> string option" where
  "outcomeLower m = map_option toLowerCase (final_outcome m)"

definition qualityMeasuresCounts :: "qm_document list option \<Rightarrow> qm_counts" where
  "qualityMeasuresCounts qualityMeasuresData =
     (case qualityMeasuresData of
        None \<Rightarrow> \<lparr>passed = 0, failed = 0, excluded = 0\<rparr>
      | Some docs \<Rightarrow>
          \<lparr>passed = length (filter (\<lambda>m. outcomeLower m = Some ''pass'') (firstDocumentValues docs)),
           failed = length (filter (\<lambda>m. outcomeLower m = Some ''fail'') (firstDocumentValues docs)),
           excluded = length (filter (\<lambda>m. outcomeLower m = Some ''exclusion'' \<or>
                                           outcomeLower m = Some ''excluded'' \<or>
                                           outcomeLower m = Some ''exclude'')
                                (firstDocumentValues docs))\<rparr>)"

text \<open>
  The classification the glossary describes: a measure is a pass, a fail or an exclusion,
  or none of them.
\<close>

datatype outcome_class = Passed | Failed | Excluded

definition classify :: "quality_measure \<Rightarrow> outcome_class option" where
  "classify m =
     (case final_outcome m of
        None \<Rightarrow> None
      | Some s \<Rightarrow>
          (if toLowerCase s = ''pass'' then Some Passed
           else if toLowerCase s = ''fail'' then Some Failed
           else if toLowerCase s \<in> {''exclusion'', ''excluded'', ''exclude''} then Some Excluded
           else None))"

section \<open>Example inputs\<close>

text \<open>
  A platform for the examples: exact rational arithmetic in which \<open>None\<close> is \<open>NaN\<close>, and
  small tables in place of the parsers of dates and numbers.
\<close>

fun decimalDigits :: "nat \<Rightarrow> nat \<Rightarrow> string" where
  "decimalDigits 0 n = []"
| "decimalDigits (Suc fuel) n =
     (if n < 10 then [''0123456789'' ! n]
      else decimalDigits fuel (n div 10) @ [''0123456789'' ! (n mod 10)])"

definition demoToFixed :: "rat option \<Rightarrow> nat \<Rightarrow> string" where
  "demoToFixed x d =
     (case x of
        None \<Rightarrow> ''NaN''
      | Some r \<Rightarrow>
          (let n = nat \<lfloor>\<bar>r\<bar> * 10 ^ d + 1 / 2\<rfloor>;
               whole = decimalDigits 20 (n div 10 ^ d);
               part = decimalDigits 20 (n mod 10 ^ d)
           in (if r < 0 then ''-'' else []) @ whole @
              (if d = 0 then [] else ''.'' @ replicate (d - length part) (CHR ''0'') @ part)))"

definition lift2 :: "(rat \<Rightarrow> rat \<Rightarrow> rat) \<Rightarrow> rat option \<Rightarrow> rat option \<Rightarrow> rat option" where
  "lift2 f x y = (case (x, y) of (Some a, Some b) \<Rightarrow> Some (f a b) | _ \<Rightarrow> None)"

definition demoPlatform :: "rat option platform" where
  "demoPlatform =
     \<lparr>dateGetTime = map_of [(''2024-01-01'', 1704067200000), (''2024-03-01'', 1709251200000),
                            (''2024-06-01'', 1717200000000)],
      numberToString = (\<lambda>r. decimalDigits 20 (nat \<lfloor>r\<rfloor>)),
      parseInt = map_of [(''1'', 1), (''2'', 2), (''3'', 3)],
      parseFloat = (\<lambda>s. map_option of_int (map_of [(''60'', 60), (''70'', 70)] s)),
      num = Some,
      nan = None,
      fsub = lift2 (-),
      fdiv = (\<lambda>x y. if y = Some 0 then None else lift2 (/) x y),
      fmul = lift2 (*),
      fabs = map_option abs,
      fround = map_option (\<lambda>r. of_int \<lfloor>r + 1 / 2\<rfloor>),
      fless = (\<lambda>x y. case (x, y) of (Some a, Some b) \<Rightarrow> a < b | _ \<Rightarrow> False),
      toFixed = demoToFixed\<rparr>"

definition emptyAbstraction :: abstraction where
  "emptyAbstraction =
     \<lparr>demographics_age = None, history_medical_history = None, history_smoking_status = None,
      assessment_ecog = None, assessment_kps = None, assessment_pain_score = None,
      assessment_ipss = None, assessment_aua = None, assessment_shim = None,
      assessment_iief = None, treatment_technique = None, treatment_modality = None,
      treatment_total_dose = None, treatment_fractions = None, toxicity_grade = None,
      side_effects = None, disease_status = None, review_of_systems = None\<rparr>"

definition demoNotes :: "Note list" where
  "demoNotes =
     [\<lparr>patient_id = ''P001'', noteType = Some ''CONSULT'', description = Some ''Initial consult'',
       creation = Some ''2024-01-01'',
       noteAbstraction = Some (emptyAbstraction\<lparr>demographics_age := Some 67,
         history_medical_history := Some (JArr [''Hypertension'', ''COPD'', '' '']),
         history_smoking_status := Some (JStr ''Former smoker''),
         assessment_ecog := Some 1\<rparr>)\<rparr>,
      \<lparr>patient_id = ''P002'', noteType = Some ''CONSULT'', description = None,
       creation = Some ''2024-01-01'',
       noteAbstraction = Some (emptyAbstraction\<lparr>
         history_medical_history := Some (JStr ''Type 2 Diabetes, CAD''),
         history_smoking_status := Some (JNum 0)\<rparr>)\<rparr>,
      \<lparr>patient_id = ''P001'', noteType = Some ''SIMULATION'', description = Some ''SBRT lung planning'',
       creation = Some ''2024-01-01'', noteAbstraction = None\<rparr>,
      \<lparr>patient_id = ''P001'', noteType = Some ''DAILY TREATMENT'',
       description = Some ''Treatment DELAY, machine down'', creation = Some ''2024-01-01'',
       noteAbstraction = Some (emptyAbstraction\<lparr>toxicity_grade := Some (JStr ''2'')\<rparr>)\<rparr>,
      \<lparr>patient_id = ''P001'', noteType = Some ''DAILY TREATMENT'',
       description = Some ''Fraction delivered'', creation = Some ''2024-01-01'',
       noteAbstraction = Some (emptyAbstraction\<lparr>toxicity_grade := Some (JStr ''n/a'')\<rparr>)\<rparr>,
      \<lparr>patient_id = ''P002'', noteType = Some ''TREATMENT SUMMARY'', description = None,
       creation = Some ''2024-03-01'',
       noteAbstraction = Some (emptyAbstraction\<lparr>treatment_modality := Some ''IMRT prostate'',
         treatment_total_dose := Some (JStr ''70''), treatment_fractions := Some (JStr ''3'')\<rparr>)\<rparr>,
      \<lparr>patient_id = ''P001'', noteType = Some ''FOLLOWUP'', description = None,
       creation = Some ''2024-03-01'',
       noteAbstraction = Some (emptyAbstraction\<lparr>disease_status := Some (JStr ''NED''),
         side_effects := Some (JStr ''Chronic cough'')\<rparr>)\<rparr>,
      \<lparr>patient_id = ''P001'', noteType = Some ''FOLLOWUP'', description = None,
       creation = Some ''2024-06-01'',
       noteAbstraction = Some (emptyAbstraction\<lparr>disease_status := Some (JStr ''Local recurrence''),
         side_effects := Some (JStr ''Severe fatigue'')\<rparr>)\<rparr>]"

definition otherNote :: Note where
  "otherNote =
     \<lparr>patient_id = ''P003'', noteType = Some ''FOLLOWUP'', description = None,
      creation = Some ''2024-06-01'',
      noteAbstraction = Some (emptyAbstraction\<lparr>disease_status := Some (JStr ''Progression'')\<rparr>)\<rparr>"




definition demoDocs :: "qm_document list" where
  "demoDocs = [\<lparr>data = Some [(''m1'', \<lparr>final_outcome = Some ''PASS''\<rparr>),
                               (''m2'', \<lparr>final_outcome = Some ''Fail''\<rparr>),
                               (''m3'', \<lparr>final_outcome = Some ''Excluded''\<rparr>),
                               (''m4'', \<lparr>final_outcome = Some ''pending''\<rparr>),
                               (''m5'', \<lparr>final_outcome = None\<rparr>)]\<rparr>]"


section \<open>Properties of the quality-measure counts\<close>

lemma classify_cases:
  "classify m = Some Passed \<longleftrightarrow> outcomeLower m = Some ''pass''"
  "classify m = Some Failed \<longleftrightarrow> outcomeLower m = Some ''fail''"
  "classify m = Some Excluded \<longleftrightarrow>
     (outcomeLower m = Some ''exclusion'' \<or> outcomeLower m = Some ''excluded'' \<or>
      outcomeLower m = Some ''exclude'')"
  by (cases "final_outcome m"; simp add: classify_def outcomeLower_def; fail)+

lemma three_way_count:
  "length (filter (\<lambda>m. f m = Some Passed) ms) + length (filter (\<lambda>m. f m = Some Failed) ms)
     + length (filter (\<lambda>m. f m = Some Excluded) ms) = length (filter (\<lambda>m. f m \<noteq> None) ms)"
proof (induction ms)
  case Nil
  show ?case by simp
next
  case (Cons m ms)
  show ?case
  proof (cases "f m")
    case None
    with Cons show ?thesis by simp
  next
    case (Some c)
    with Cons show ?thesis by (cases c) simp_all
  qed
qed

text \<open>
  Claim C10. Each count of the header is the number of measures of one class, where the
  class of a measure is decided by its lower-cased \<open>final_outcome\<close>: \<open>pass\<close>, \<open>fail\<close>, or one
  of \<open>exclusion\<close>, \<open>excluded\<close>, \<open>exclude\<close>. A measure has at most one class, a measure with any
  other outcome (or none) is counted nowhere, so the three counts add up to the number of
  classified measures, which never exceeds the number of measures. Without data the counts
  are all 0.
\<close>

theorem qualityMeasuresCounts_classified:
  "qualityMeasuresCounts None = \<lparr>passed = 0, failed = 0, excluded = 0\<rparr> \<and>
   passed (qualityMeasuresCounts (Some docs)) =
     length (filter (\<lambda>m. classify m = Some Passed) (firstDocumentValues docs)) \<and>
   failed (qualityMeasuresCounts (Some docs)) =
     length (filter (\<lambda>m. classify m = Some Failed) (firstDocumentValues docs)) \<and>
   excluded (qualityMeasuresCounts (Some docs)) =
     length (filter (\<lambda>m. classify m = Some Excluded) (firstDocumentValues docs)) \<and>
   passed (qualityMeasuresCounts (Some docs)) + failed (qualityMeasuresCounts (Some docs))
     + excluded (qualityMeasuresCounts (Some docs)) =
     length (filter (\<lambda>m. classify m \<noteq> None) (firstDocumentValues docs)) \<and>
   passed (qualityMeasuresCounts (Some docs)) + failed (qualityMeasuresCounts (Some docs))
     + excluded (qualityMeasuresCounts (Some docs)) \<le> length (firstDocumentValues docs)"
proof -
  let ?ms = "firstDocumentValues docs"
  let ?c = "qualityMeasuresCounts (Some docs)"
  have p: "passed ?c = length (filter (\<lambda>m. classify m = Some Passed) ?ms)"
    by (simp add: qualityMeasuresCounts_def classify_cases)
  have f: "failed ?c = length (filter (\<lambda>m. classify m = Some Failed) ?ms)"
    by (simp add: qualityMeasuresCounts_def classify_cases)
  have e: "excluded ?c = length (filter (\<lambda>m. classify m = Some Excluded) ?ms)"
    by (simp add: qualityMeasuresCounts_def classify_cases)
  have s: "passed ?c + failed ?c + excluded ?c = length (filter (\<lambda>m. classify m \<noteq> None) ?ms)"
    unfolding p f e by (rule three_way_count)
  have le: "length (filter (\<lambda>m. classify m \<noteq> None) ?ms) \<le> length ?ms"
    by (rule length_filter_le)
  have n: "qualityMeasuresCounts None = \<lparr>passed = 0, failed = 0, excluded = 0\<rparr>"
    by (simp add: qualityMeasuresCounts_def)
  show ?thesis using p f e s le n by simp
qed

theorem qualityMeasuresCounts_classified_witness:
  "qualityMeasuresCounts (Some demoDocs) = \<lparr>passed = 1, failed = 1, excluded = 1\<rparr> \<and>
   length (firstDocumentValues demoDocs) = 5 \<and>
   length (filter (\<lambda>m. classify m \<noteq> None) (firstDocumentValues demoDocs)) = 3"
proof -
  have c: "qualityMeasuresCounts (Some demoDocs) = \<lparr>passed = 1, failed = 1, excluded = 1\<rparr>"
    by code_simp
  have l: "length (firstDocumentValues demoDocs) = 5"
    by code_simp
  from qualityMeasuresCounts_classified [of demoDocs] c
  have "length (filter (\<lambda>m. classify m \<noteq> None) (firstDocumentValues demoDocs)) = 3"
    by simp
  with c l show ?thesis by simp
qed

section \<open>Properties of the text search\<close>

















section \<open>Properties of the patient analytics\<close>

lemma arrayFromSet_snoc: "arrayFromSet (xs @ [x]) = setAdd (arrayFromSet xs) x"
  by (simp add: arrayFromSet_def)

lemma set_arrayFromSet: "set (arrayFromSet xs) = set xs"
  by (induction xs rule: rev_induct) (auto simp: arrayFromSet_snoc setAdd_def arrayFromSet_def)

lemma distinct_arrayFromSet: "distinct (arrayFromSet xs)"
  by (induction xs rule: rev_induct) (auto simp: arrayFromSet_snoc setAdd_def arrayFromSet_def)

lemma firstOccurrences_snoc:
  "firstOccurrences (xs @ [x]) = firstOccurrences xs @ (if x \<in> set xs then [] else [x])"
proof -
  have a: "filter (\<lambda>i. (xs @ [x]) ! i \<notin> set (take i (xs @ [x]))) [0 ..< length xs] =
           filter (\<lambda>i. xs ! i \<notin> set (take i xs)) [0 ..< length xs]"
    by (rule filter_cong) (auto simp: nth_append)
  have b: "map (\<lambda>i. (xs @ [x]) ! i) (filter (\<lambda>i. xs ! i \<notin> set (take i xs)) [0 ..< length xs]) =
           map (\<lambda>i. xs ! i) (filter (\<lambda>i. xs ! i \<notin> set (take i xs)) [0 ..< length xs])"
    by (rule map_cong) (auto simp: nth_append)
  show ?thesis
    unfolding firstOccurrences_def using a b by simp
qed

lemma arrayFromSet_firstOccurrences: "arrayFromSet xs = firstOccurrences xs"
proof (induction xs rule: rev_induct)
  case Nil
  show ?case by (simp add: arrayFromSet_def firstOccurrences_def)
next
  case (snoc x xs)
  show ?case
    by (simp add: arrayFromSet_snoc firstOccurrences_snoc setAdd_def set_arrayFromSet snoc [symmetric])
qed

text \<open>
  Claim C1. \<open>generatePatientAnalytics\<close> returns one entry for each distinct \<open>patient_id\<close> of
  the notes, in the order in which the ids first occur, and the four components of each
  entry are the four extractions for the id of the entry over the same notes.
\<close>

theorem generatePatientAnalytics_groups:
  "map patientId (generatePatientAnalytics P notes) = firstOccurrences (map patient_id notes) \<and>
   distinct (map patientId (generatePatientAnalytics P notes)) \<and>
   set (map patientId (generatePatientAnalytics P notes)) = patient_id ` set notes \<and>
   (\<forall>e \<in> set (generatePatientAnalytics P notes).
      comorbidities e = extractComorbidityProfile P notes (patientId e) \<and>
      treatment e = extractTreatmentModality P notes (patientId e) \<and>
      tolerance e = extractTreatmentTolerance P notes (patientId e) \<and>
      outcomes e = extractOutcomeData P notes (patientId e))"
proof -
  have ids: "map patientId (generatePatientAnalytics P notes) = arrayFromSet (map patient_id notes)"
    by (simp add: generatePatientAnalytics_def comp_def)
  have 1: "map patientId (generatePatientAnalytics P notes) = firstOccurrences (map patient_id notes)"
    using ids arrayFromSet_firstOccurrences by metis
  have 2: "distinct (map patientId (generatePatientAnalytics P notes))"
    unfolding ids by (rule distinct_arrayFromSet)
  have 3: "set (map patientId (generatePatientAnalytics P notes)) = patient_id ` set notes"
    unfolding ids by (simp add: set_arrayFromSet)
  have 4: "\<forall>e \<in> set (generatePatientAnalytics P notes).
      comorbidities e = extractComorbidityProfile P notes (patientId e) \<and>
      treatment e = extractTreatmentModality P notes (patientId e) \<and>
      tolerance e = extractTreatmentTolerance P notes (patientId e) \<and>
      outcomes e = extractOutcomeData P notes (patientId e)"
    by (auto simp: generatePatientAnalytics_def)
  from 1 2 3 4 show ?thesis by blast
qed

theorem generatePatientAnalytics_groups_witness:
  "map patientId (generatePatientAnalytics demoPlatform demoNotes) = [''P001'', ''P002''] \<and>
   firstOccurrences (map patient_id demoNotes) = [''P001'', ''P002''] \<and>
   map (\<lambda>e. tolerance e = extractTreatmentTolerance demoPlatform demoNotes (patientId e))
     (generatePatientAnalytics demoPlatform demoNotes) = [True, True]"
proof -
  have ids: "map patientId (generatePatientAnalytics demoPlatform demoNotes) = [''P001'', ''P002'']"
    by code_simp
  have len: "length (generatePatientAnalytics demoPlatform demoNotes) = 2"
    using ids by (metis length_map length_Cons list.size(3) numeral_2_eq_2)
  note inst = generatePatientAnalytics_groups [of demoPlatform demoNotes]
  from inst ids have first: "firstOccurrences (map patient_id demoNotes) = [''P001'', ''P002'']"
    by simp
  from inst have "\<forall>e \<in> set (generatePatientAnalytics demoPlatform demoNotes).
      (tolerance e = extractTreatmentTolerance demoPlatform demoNotes (patientId e)) = True"
    by simp
  then have "map (\<lambda>e. tolerance e = extractTreatmentTolerance demoPlatform demoNotes (patientId e))
     (generatePatientAnalytics demoPlatform demoNotes) =
     replicate (length (generatePatientAnalytics demoPlatform demoNotes)) True"
    by (simp add: map_replicate_const [symmetric] cong: map_cong)
  with len have "map (\<lambda>e. tolerance e = extractTreatmentTolerance demoPlatform demoNotes (patientId e))
     (generatePatientAnalytics demoPlatform demoNotes) = [True, True]"
    by (simp add: numeral_2_eq_2)
  with ids first show ?thesis by simp
qed

lemma filter_patient_cong:
  assumes "filter (\<lambda>n. patient_id n = p) xs = filter (\<lambda>n. patient_id n = p) ys"
  shows "filter (\<lambda>n. patient_id n = p \<and> Q n) xs = filter (\<lambda>n. patient_id n = p \<and> Q n) ys"
proof -
  have "filter (\<lambda>n. patient_id n = p \<and> Q n) zs = filter Q (filter (\<lambda>n. patient_id n = p) zs)" for zs
    by simp
  then show ?thesis using assms by (simp only:)
qed

text \<open>
  Claim C2. Each of the four extractions for a patient \<open>p\<close> depends only on the notes of
  \<open>p\<close>: two lists of notes whose notes with \<open>patient_id = p\<close> are the same, in the same
  order, give the same profile, modality, tolerance and outcome for \<open>p\<close>.
\<close>

theorem extraction_depends_on_own_notes:
  assumes "filter (\<lambda>n. patient_id n = p) notes1 = filter (\<lambda>n. patient_id n = p) notes2"
  shows "extractComorbidityProfile P notes1 p = extractComorbidityProfile P notes2 p \<and>
         extractTreatmentModality P notes1 p = extractTreatmentModality P notes2 p \<and>
         extractTreatmentTolerance P notes1 p = extractTreatmentTolerance P notes2 p \<and>
         extractOutcomeData P notes1 p = extractOutcomeData P notes2 p"
proof -
  have t: "notesOfType notes1 p t = notesOfType notes2 p t" for t
    unfolding notesOfType_def using assms by (rule filter_patient_cong)
  have m: "filter (\<lambda>note. patient_id note = p \<and>
                      (noteType note = Some ''SIMULATION'' \<or> noteType note = Some ''TREATMENT SUMMARY'')) notes1 =
           filter (\<lambda>note. patient_id note = p \<and>
                      (noteType note = Some ''SIMULATION'' \<or> noteType note = Some ''TREATMENT SUMMARY'')) notes2"
    using assms by (rule filter_patient_cong)
  have 1: "extractComorbidityProfile P notes1 p = extractComorbidityProfile P notes2 p"
    unfolding extractComorbidityProfile_def t ..
  have 2: "extractTreatmentModality P notes1 p = extractTreatmentModality P notes2 p"
    unfolding extractTreatmentModality_def m ..
  have 3: "extractTreatmentTolerance P notes1 p = extractTreatmentTolerance P notes2 p"
    unfolding extractTreatmentTolerance_def t ..
  have 4: "extractOutcomeData P notes1 p = extractOutcomeData P notes2 p"
    unfolding extractOutcomeData_def t ..
  from 1 2 3 4 show ?thesis by blast
qed

theorem extraction_depends_on_own_notes_witness:
  "filter (\<lambda>n. patient_id n = ''P001'') demoNotes =
     filter (\<lambda>n. patient_id n = ''P001'') (otherNote # demoNotes) \<and>
   extractComorbidityProfile demoPlatform demoNotes ''P001'' =
     extractComorbidityProfile demoPlatform (otherNote # demoNotes) ''P001'' \<and>
   extractOutcomeData demoPlatform demoNotes ''P001'' =
     extractOutcomeData demoPlatform (otherNote # demoNotes) ''P001'' \<and>
   extractOutcomeData demoPlatform demoNotes ''P001'' =
     \<lparr>od_patientId = ''P001'', localControl = False, recurrence = True,
      survivalMonths = Some (Some 5), lateToxicity = False, grade3Toxicity = True\<rparr>"
proof -
  have same: "filter (\<lambda>n. patient_id n = ''P001'') demoNotes =
     filter (\<lambda>n. patient_id n = ''P001'') (otherNote # demoNotes)"
    by (simp add: otherNote_def)
  have out: "extractOutcomeData demoPlatform demoNotes ''P001'' =
     \<lparr>od_patientId = ''P001'', localControl = False, recurrence = True,
      survivalMonths = Some (Some 5), lateToxicity = False, grade3Toxicity = True\<rparr>"
    by code_simp
  from extraction_depends_on_own_notes [OF same, of demoPlatform] same out
  show ?thesis by simp
qed

section \<open>Properties of the comorbidity profile\<close>
















section \<open>Properties of the treatment tolerance\<close>

lemma dailyStep_fields:
  "interruptions_so_far (dailyStep P n st) =
     interruptions_so_far st + (if mentionsInterruption n then 1 else 0)"
  "toxicityGrade_so_far (dailyStep P n st) =
     (case parsedGrade P n of
        None \<Rightarrow> toxicityGrade_so_far st
      | Some grade \<Rightarrow> max (toxicityGrade_so_far st) grade)"
  by (simp_all add: dailyStep_def)

lemma interruptions_fold_dailyStep:
  "interruptions_so_far (fold (dailyStep P) ns st) =
     interruptions_so_far st + length (filter mentionsInterruption ns)"
  by (induction ns arbitrary: st) (simp_all add: dailyStep_fields)

lemma toxicityGrade_fold_dailyStep:
  "toxicityGrade_so_far (fold (dailyStep P) ns st) =
     fold max (List.map_filter (parsedGrade P) ns) (toxicityGrade_so_far st)"
proof (induction ns arbitrary: st)
  case Nil
  show ?case by simp
next
  case (Cons n ns)
  show ?case
    by (cases "parsedGrade P n")
      (simp_all add: Cons dailyStep_fields max.commute)
qed

lemma fold_max_is_Max: "fold max gs (g0 :: int) = Max (insert g0 (set gs))"
  using Max.set_eq_fold [of g0 gs] by simp

lemma filter_notesOfType:
  "filter Q (notesOfType notes p t) =
     filter (\<lambda>n. patient_id n = p \<and> noteType n = Some t \<and> Q n) notes"
  by (simp add: notesOfType_def conj_assoc)

lemma grades_notesOfType:
  "set (List.map_filter f (notesOfType notes p t)) =
     {g. \<exists>n \<in> set notes. patient_id n = p \<and> noteType n = Some t \<and> f n = Some g}"
  by (force simp: List.map_filter_def notesOfType_def)

text \<open>
  Claim C7. \<open>interruptions\<close> is the number of the patient's \<open>DAILY TREATMENT\<close> notes whose
  lower-cased description contains \<open>interrupt\<close>, \<open>delay\<close>, \<open>break\<close> or \<open>hold\<close>;
  \<open>completedTreatment\<close> holds exactly when that number is less than 3; and \<open>toxicityGrade\<close> is
  the maximum of 0 and the grades parsed from the patient's daily notes when that maximum
  is positive, and is absent exactly when the maximum is 0.
\<close>

theorem tolerance_counts_interruptions:
  "interruptions (extractTreatmentTolerance P notes p) =
     length (filter (\<lambda>n. patient_id n = p \<and> noteType n = Some ''DAILY TREATMENT'' \<and>
                        (str_includes (descriptionLower n) ''interrupt'' \<or>
                         str_includes (descriptionLower n) ''delay'' \<or>
                         str_includes (descriptionLower n) ''break'' \<or>
                         str_includes (descriptionLower n) ''hold'')) notes) \<and>
   (completedTreatment (extractTreatmentTolerance P notes p) \<longleftrightarrow>
      interruptions (extractTreatmentTolerance P notes p) < 3) \<and>
   (toxicityGrade (extractTreatmentTolerance P notes p) = None \<longleftrightarrow>
      Max (insert 0 {g. \<exists>n \<in> set notes. patient_id n = p \<and> noteType n = Some ''DAILY TREATMENT'' \<and>
                          parsedGrade P n = Some g}) = 0) \<and>
   (\<forall>g. toxicityGrade (extractTreatmentTolerance P notes p) = Some g \<longrightarrow>
      g = Max (insert 0 {g. \<exists>n \<in> set notes. patient_id n = p \<and> noteType n = Some ''DAILY TREATMENT'' \<and>
                          parsedGrade P n = Some g}))"
proof -
  let ?t = "extractTreatmentTolerance P notes p"
  let ?G = "{g. \<exists>n \<in> set notes. patient_id n = p \<and> noteType n = Some ''DAILY TREATMENT'' \<and>
                          parsedGrade P n = Some g}"
  let ?M = "Max (insert 0 ?G)"
  have i: "interruptions ?t =
     length (filter (\<lambda>n. patient_id n = p \<and> noteType n = Some ''DAILY TREATMENT'' \<and>
                        (str_includes (descriptionLower n) ''interrupt'' \<or>
                         str_includes (descriptionLower n) ''delay'' \<or>
                         str_includes (descriptionLower n) ''break'' \<or>
                         str_includes (descriptionLower n) ''hold'')) notes)"
    by (simp add: extractTreatmentTolerance_def Let_def interruptions_fold_dailyStep
        filter_notesOfType mentionsInterruption_def)
  have c: "completedTreatment ?t \<longleftrightarrow> interruptions ?t < 3"
    by (simp add: extractTreatmentTolerance_def Let_def)
  have fin: "finite ?G"
    using finite_set [of "List.map_filter (parsedGrade P) (notesOfType notes p ''DAILY TREATMENT'')"]
    unfolding grades_notesOfType .
  then have nonneg: "0 \<le> ?M" by simp
  have g: "toxicityGrade ?t = (if 0 < ?M then Some ?M else None)"
    by (simp add: extractTreatmentTolerance_def Let_def toxicityGrade_fold_dailyStep
        fold_max_is_Max grades_notesOfType)
  have n: "toxicityGrade ?t = None \<longleftrightarrow> ?M = 0"
    using g nonneg by auto
  have s: "\<forall>g. toxicityGrade ?t = Some g \<longrightarrow> g = ?M"
    using g by (auto split: if_splits)
  from i c n s show ?thesis by blast
qed

theorem tolerance_counts_interruptions_witness:
  "interruptions (extractTreatmentTolerance demoPlatform demoNotes ''P001'') = 1 \<and>
   completedTreatment (extractTreatmentTolerance demoPlatform demoNotes ''P001'') \<and>
   toxicityGrade (extractTreatmentTolerance demoPlatform demoNotes ''P001'') = Some 2 \<and>
   Max (insert 0 {g. \<exists>n \<in> set demoNotes. patient_id n = ''P001'' \<and>
                       noteType n = Some ''DAILY TREATMENT'' \<and>
                       parsedGrade demoPlatform n = Some g}) = 2 \<and>
   toxicityGrade (extractTreatmentTolerance demoPlatform demoNotes ''P002'') = None \<and>
   Max (insert 0 {g. \<exists>n \<in> set demoNotes. patient_id n = ''P002'' \<and>
                       noteType n = Some ''DAILY TREATMENT'' \<and>
                       parsedGrade demoPlatform n = Some g}) = 0"
proof -
  have v: "interruptions (extractTreatmentTolerance demoPlatform demoNotes ''P001'') = 1"
      "completedTreatment (extractTreatmentTolerance demoPlatform demoNotes ''P001'')"
      "toxicityGrade (extractTreatmentTolerance demoPlatform demoNotes ''P001'') = Some 2"
      "toxicityGrade (extractTreatmentTolerance demoPlatform demoNotes ''P002'') = None"
    by code_simp+
  from tolerance_counts_interruptions [of demoPlatform demoNotes "''P001''"] v(3)
  have m1: "Max (insert 0 {g. \<exists>n \<in> set demoNotes. patient_id n = ''P001'' \<and>
                       noteType n = Some ''DAILY TREATMENT'' \<and>
                       parsedGrade demoPlatform n = Some g}) = 2"
    by simp
  from tolerance_counts_interruptions [of demoPlatform demoNotes "''P002''"] v(4)
  have m2: "Max (insert 0 {g. \<exists>n \<in> set demoNotes. patient_id n = ''P002'' \<and>
                       noteType n = Some ''DAILY TREATMENT'' \<and>
                       parsedGrade demoPlatform n = Some g}) = 0"
    by simp
  from v m1 m2 show ?thesis by simp
qed

section \<open>Properties of sorting\<close>














section \<open>Properties of the outcome\<close>



section \<open>Properties of the grouping into tabs\<close>




















section \<open>Properties of the cohort filter\<close>





section \<open>Properties of the insights\<close>









end
